theory Spec2Isabelle
  imports Complex_Main "HOL-Library.Word"
begin

unbundle bit_operations_syntax

section \<open>Light sources of the rendering framework (Graphics/Light.h)\<close>

subsection \<open>Scalars and vectors\<close>

text \<open>
  A C++ \<^verbatim>\<open>float\<close> is its IEEE-754 binary32 bit pattern, so that every value a
  setter can receive (negative numbers, infinities, NaNs) is a value of the model.
  Bit 31 is the sign, bits 30..23 the biased exponent, bits 22..0 the fraction.
\<close>

type_synonym float = "32 word"

definition float_sign :: "float \<Rightarrow> bool" where
  "float_sign w = bit w 31"

definition float_exponent :: "float \<Rightarrow> nat" where
  "float_exponent w = unat (drop_bit 23 w AND 0xFF)"

definition float_fraction :: "float \<Rightarrow> nat" where
  "float_fraction w = unat (w AND 0x7FFFFF)"

text \<open>The number a bit pattern stands for; \<open>None\<close> for the infinities and NaNs.\<close>

definition float_value :: "float \<Rightarrow> rat option" where
  "float_value w =
     (let s = (if float_sign w then - 1 else 1 :: rat);
          e = float_exponent w;
          m = float_fraction w
      in if e = 255 then None
         else if e = 0 then Some (s * (of_nat m / 2 ^ 23) / 2 ^ 126)
         else if e < 127 then Some (s * (1 + of_nat m / 2 ^ 23) / 2 ^ (127 - e))
         else Some (s * (1 + of_nat m / 2 ^ 23) * 2 ^ (e - 127)))"

text \<open>The literals \<^verbatim>\<open>0.0f\<close>, \<^verbatim>\<open>1.0f\<close> and \<^verbatim>\<open>45.0f\<close> of the header.\<close>

definition f_0 :: float where "f_0 = 0x00000000"
definition f_1 :: float where "f_1 = 0x3F800000"
definition f_45 :: float where "f_45 = 0x42340000"


text \<open>
  The comparisons \<^verbatim>\<open><\<close> and \<^verbatim>\<open><=\<close> of two floats: false whenever an operand is a NaN
  (exponent 255, fraction not 0); the infinities (exponent 255, fraction 0) lie below
  and above every number.
\<close>

definition is_nan :: "float \<Rightarrow> bool" where
  "is_nan w \<longleftrightarrow> float_exponent w = 255 \<and> float_fraction w \<noteq> 0"

definition float_lt :: "float \<Rightarrow> float \<Rightarrow> bool" where
  "float_lt a b \<longleftrightarrow> \<not> is_nan a \<and> \<not> is_nan b \<and>
     (case (float_value a, float_value b) of
        (Some x, Some y) \<Rightarrow> x < y
      | (None, Some y) \<Rightarrow> float_sign a
      | (Some x, None) \<Rightarrow> \<not> float_sign b
      | (None, None) \<Rightarrow> float_sign a \<and> \<not> float_sign b)"


text \<open>
  \<^verbatim>\<open>glm::vec3\<close>: three floats. \<^verbatim>\<open>vec3(s)\<close> fills the three components with \<open>s\<close>;
  \<^verbatim>\<open>v * s\<close> multiplies each component by the scalar. The multiplication of two floats
  is a parameter \<open>fmul\<close> of every definition that uses it: the theorems below hold
  for any rounding, overflow and NaN behaviour.
\<close>

datatype vec3 = Vec3 (vx: float) (vy: float) (vz: float)

definition vec3_splat :: "float \<Rightarrow> vec3" where
  "vec3_splat s = Vec3 s s s"

definition vec3_scale :: "(float \<Rightarrow> float \<Rightarrow> float) \<Rightarrow> vec3 \<Rightarrow> float \<Rightarrow> vec3" where
  "vec3_scale fmul v s = Vec3 (fmul (vx v) s) (fmul (vy v) s) (fmul (vz v) s)"

subsection \<open>The data block and the classes\<close>

text \<open>
  \<^verbatim>\<open>LightData\<close> is declared in Data/HostDeviceData.h, which is not among the sources.
  The record has the members that Light.h reads or writes, with the types its accessors
  give them. Whatever else the struct holds is the extension part of the record scheme
  \<open>'d LightData_scheme\<close>, so the definitions below work for any remaining members and
  never touch them.
\<close>

record LightData =
  posW :: vec3
  type :: "32 word"
  dirW :: vec3
  lightColor :: vec3
  attenuationRadius :: float
  upW :: vec3
  sourceRadius :: float
  sourceLength :: float

text \<open>
  \<^verbatim>\<open>class Light : public Transform\<close>. The base class \<^verbatim>\<open>Transform\<close> (Graphics/Transform.h)
  is not among the sources: its state is the field \<open>transform\<close> of an arbitrary type
  \<open>'t\<close>. \<^verbatim>\<open>DirectionalLight\<close> and \<^verbatim>\<open>PointLight\<close> add no data member to \<^verbatim>\<open>Light\<close>;
  \<^verbatim>\<open>SpotLight\<close> adds the two cone angles, in degrees.
\<close>

record ('t, 'd) Light =
  transform :: 't
  mName :: string
  mColor :: vec3
  mIntensity :: float
  mData :: "'d LightData_scheme"

type_synonym ('t, 'd) DirectionalLight = "('t, 'd) Light"

type_synonym ('t, 'd) PointLight = "('t, 'd) Light"

record ('t, 'd) SpotLight = "('t, 'd) Light" +
  mInnerConeAngle :: float
  mOuterConeAngle :: float

text \<open>
  The classes that are compiled. \<^verbatim>\<open>AreaLight\<close> stands between \<^verbatim>\<open>#if 0\<close> and \<^verbatim>\<open>#endif\<close>
  and is no class of the program.
\<close>

datatype light_class = Class_Light | Class_DirectionalLight | Class_PointLight | Class_SpotLight

text \<open>The direct base among the light classes (\<open>None\<close> for \<^verbatim>\<open>Light\<close>, whose base is \<^verbatim>\<open>Transform\<close>).\<close>

fun base_class :: "light_class \<Rightarrow> light_class option" where
  "base_class Class_Light = None"
| "base_class Class_DirectionalLight = Some Class_Light"
| "base_class Class_PointLight = Some Class_Light"
| "base_class Class_SpotLight = Some Class_PointLight"

subsection \<open>class Light\<close>

definition updateLightColor ::
  "(float \<Rightarrow> float \<Rightarrow> float) \<Rightarrow> ('t, 'd, 'm) Light_scheme \<Rightarrow> ('t, 'd, 'm) Light_scheme" where
  "updateLightColor fmul s =
     s\<lparr>mData := (mData s)\<lparr>lightColor := vec3_scale fmul (mColor s) (mIntensity s)\<rparr>\<rparr>"

definition setIntensity ::
  "(float \<Rightarrow> float \<Rightarrow> float) \<Rightarrow> float \<Rightarrow> ('t, 'd, 'm) Light_scheme \<Rightarrow> ('t, 'd, 'm) Light_scheme" where
  "setIntensity fmul intensity s = updateLightColor fmul (s\<lparr>mIntensity := intensity\<rparr>)"

definition setColor ::
  "(float \<Rightarrow> float \<Rightarrow> float) \<Rightarrow> vec3 \<Rightarrow> ('t, 'd, 'm) Light_scheme \<Rightarrow> ('t, 'd, 'm) Light_scheme" where
  "setColor fmul color s = updateLightColor fmul (s\<lparr>mColor := color\<rparr>)"

definition setDirection :: "vec3 \<Rightarrow> ('t, 'd, 'm) Light_scheme \<Rightarrow> ('t, 'd, 'm) Light_scheme" where
  "setDirection dir s = s\<lparr>mData := (mData s)\<lparr>dirW := dir\<rparr>\<rparr>"

definition getIntensity :: "('t, 'd, 'm) Light_scheme \<Rightarrow> float" where
  "getIntensity s = mIntensity s"

definition getColor :: "('t, 'd, 'm) Light_scheme \<Rightarrow> vec3" where
  "getColor s = mColor s"

definition getDirection :: "('t, 'd, 'm) Light_scheme \<Rightarrow> vec3" where
  "getDirection s = dirW (mData s)"

definition getType :: "('t, 'd, 'm) Light_scheme \<Rightarrow> 32 word" where
  "getType s = type (mData s)"

definition getData :: "('t, 'd, 'm) Light_scheme \<Rightarrow> 'd LightData_scheme" where
  "getData s = mData s"

definition setName :: "string \<Rightarrow> ('t, 'd, 'm) Light_scheme \<Rightarrow> ('t, 'd, 'm) Light_scheme" where
  "setName Name s = s\<lparr>mName := Name\<rparr>"

definition getName :: "('t, 'd, 'm) Light_scheme \<Rightarrow> string" where
  "getName s = mName s"

text \<open>
  \<^verbatim>\<open>static const size_t kDataSize = sizeof(LightData)\<close>. The size of the absent struct is
  the parameter \<open>sizeof_LightData\<close>, a \<^verbatim>\<open>size_t\<close> (64 bits on the targets of the
  framework). \<^verbatim>\<open>getShaderStructSize\<close> is static, so it has no light among its arguments,
  and returns \<^verbatim>\<open>uint32_t\<close>: the conversion keeps the low 32 bits.
\<close>

definition kDataSize :: "64 word \<Rightarrow> 64 word" where
  "kDataSize sizeof_LightData = sizeof_LightData"

definition getShaderStructSize :: "64 word \<Rightarrow> 32 word" where
  "getShaderStructSize sizeof_LightData = ucast (kDataSize sizeof_LightData)"

text \<open>
  \<^verbatim>\<open>Light() = default\<close> with the default member initialisers of the class: an empty
  name, \<^verbatim>\<open>vec3(1.0f)\<close>, \<^verbatim>\<open>1.0f\<close>. The default-constructed \<^verbatim>\<open>Transform\<close> base \<open>t0\<close> and
  the default-constructed \<^verbatim>\<open>LightData\<close> \<open>d0\<close> are parameters, both types being absent.
\<close>

definition Light_init :: "'t \<Rightarrow> 'd LightData_scheme \<Rightarrow> ('t, 'd) Light" where
  "Light_init t0 d0 =
     \<lparr>transform = t0, mName = [], mColor = vec3_splat f_1, mIntensity = f_1, mData = d0\<rparr>"

subsection \<open>class DirectionalLight\<close>

definition DirectionalLight_prepareGPUData :: "('t, 'd) DirectionalLight \<Rightarrow> ('t, 'd) DirectionalLight" where
  "DirectionalLight_prepareGPUData s = s"

definition DirectionalLight_unloadGPUData :: "('t, 'd) DirectionalLight \<Rightarrow> ('t, 'd) DirectionalLight" where
  "DirectionalLight_unloadGPUData s = s"

subsection \<open>class PointLight\<close>

definition PointLight_prepareGPUData :: "('t, 'd, 'm) Light_scheme \<Rightarrow> ('t, 'd, 'm) Light_scheme" where
  "PointLight_prepareGPUData s = s"

definition PointLight_unloadGPUData :: "('t, 'd, 'm) Light_scheme \<Rightarrow> ('t, 'd, 'm) Light_scheme" where
  "PointLight_unloadGPUData s = s"

definition setAttenuationRadius :: "float \<Rightarrow> ('t, 'd, 'm) Light_scheme \<Rightarrow> ('t, 'd, 'm) Light_scheme" where
  "setAttenuationRadius radius s = s\<lparr>mData := (mData s)\<lparr>attenuationRadius := radius\<rparr>\<rparr>"

definition setPosition :: "vec3 \<Rightarrow> ('t, 'd, 'm) Light_scheme \<Rightarrow> ('t, 'd, 'm) Light_scheme" where
  "setPosition pos s = s\<lparr>mData := (mData s)\<lparr>posW := pos\<rparr>\<rparr>"

definition setUpVector :: "vec3 \<Rightarrow> ('t, 'd, 'm) Light_scheme \<Rightarrow> ('t, 'd, 'm) Light_scheme" where
  "setUpVector up s = s\<lparr>mData := (mData s)\<lparr>upW := up\<rparr>\<rparr>"

definition setSourceRadius :: "float \<Rightarrow> ('t, 'd, 'm) Light_scheme \<Rightarrow> ('t, 'd, 'm) Light_scheme" where
  "setSourceRadius radius s = s\<lparr>mData := (mData s)\<lparr>sourceRadius := radius\<rparr>\<rparr>"

definition setSourceLength :: "float \<Rightarrow> ('t, 'd, 'm) Light_scheme \<Rightarrow> ('t, 'd, 'm) Light_scheme" where
  "setSourceLength len s = s\<lparr>mData := (mData s)\<lparr>sourceLength := len\<rparr>\<rparr>"

definition getAttenuationRadius :: "('t, 'd, 'm) Light_scheme \<Rightarrow> float" where
  "getAttenuationRadius s = attenuationRadius (mData s)"

definition getPosition :: "('t, 'd, 'm) Light_scheme \<Rightarrow> vec3" where
  "getPosition s = posW (mData s)"

definition getUpVector :: "('t, 'd, 'm) Light_scheme \<Rightarrow> vec3" where
  "getUpVector s = upW (mData s)"

definition getSourceRadius :: "('t, 'd, 'm) Light_scheme \<Rightarrow> float" where
  "getSourceRadius s = sourceRadius (mData s)"

definition getSourceLength :: "('t, 'd, 'm) Light_scheme \<Rightarrow> float" where
  "getSourceLength s = sourceLength (mData s)"


text \<open>
  \<^verbatim>\<open>PointLight::move\<close> is declared here and defined in Light.cpp, which is not among the
  sources: what it does to a point light is the parameter \<open>mv\<close>. \<^verbatim>\<open>SpotLight\<close> declares
  no \<^verbatim>\<open>move\<close> of its own, so a call on a spot light runs \<^verbatim>\<open>PointLight::move\<close> on the
  \<^verbatim>\<open>PointLight\<close> part of the object and leaves the members that \<^verbatim>\<open>SpotLight\<close> adds.
\<close>

definition SpotLight_move ::
  "(vec3 \<Rightarrow> vec3 \<Rightarrow> vec3 \<Rightarrow> ('t, 'd) PointLight \<Rightarrow> ('t, 'd) PointLight) \<Rightarrow>
   vec3 \<Rightarrow> vec3 \<Rightarrow> vec3 \<Rightarrow> ('t, 'd) SpotLight \<Rightarrow> ('t, 'd) SpotLight" where
  "SpotLight_move mv position target up s =
     Light.extend (mv position target up (Light.truncate s)) (Light.more s)"

subsection \<open>class SpotLight\<close>

definition getInnerConeAngle :: "('t, 'd, 'm) SpotLight_scheme \<Rightarrow> float" where
  "getInnerConeAngle s = mInnerConeAngle s"

definition getOuterConeAngle :: "('t, 'd, 'm) SpotLight_scheme \<Rightarrow> float" where
  "getOuterConeAngle s = mOuterConeAngle s"

text \<open>
  The members of a spot light after member initialisation: those of \<^verbatim>\<open>Light\<close>, then
  \<^verbatim>\<open>mInnerConeAngle = 0.0f\<close> and \<^verbatim>\<open>mOuterConeAngle = 45.0f\<close>.
\<close>

definition SpotLight_init :: "'t \<Rightarrow> 'd LightData_scheme \<Rightarrow> ('t, 'd) SpotLight" where
  "SpotLight_init t0 d0 =
     Light.extend (Light_init t0 d0) \<lparr>mInnerConeAngle = f_0, mOuterConeAngle = f_45\<rparr>"

text \<open>
  Modelled from the spec: \<^verbatim>\<open>SpotLight::setInnerConeAngle\<close>, \<^verbatim>\<open>SpotLight::setOuterConeAngle\<close>
  and \<^verbatim>\<open>SpotLight::updateConeProperties\<close> are only declared in Light.h; their bodies
  (Light.cpp) are not among the sources. The spec describes them as derived-parameter
  update logic, "cone angles \<rightarrow> attenuation factors", says that the cone-angle
  monotonicity is enforced by the setters, and knows no failure handling beyond
  assignment; the header documents the setters as "Set angle of inner (outer) cone in
  degrees". The model:
  \<^item> \<open>updateConeProperties\<close> recomputes the attenuation factors from the two stored
    angles. Light.h names no member of \<^verbatim>\<open>LightData\<close> for them, so they are in the part
    of the data block that Light.h does not name, and the formula is the parameter
    \<open>cone\<close>.
  \<^item> A setter stores the angle given; if the other angle is then on the wrong side
    (\<^verbatim>\<open>mOuterConeAngle < mInnerConeAngle\<close>), the other angle is set to the same value;
    then it calls \<open>updateConeProperties\<close>. The spec names no mechanism for the
    enforcement: this one is chosen because it keeps both statements of the spec, the
    assignment of the value given and the order of the two angles.
\<close>

definition updateConeProperties ::
  "(float \<Rightarrow> float \<Rightarrow> 'd \<Rightarrow> 'd) \<Rightarrow>
   ('t, 'd, 'm) SpotLight_scheme \<Rightarrow> ('t, 'd, 'm) SpotLight_scheme" where
  "updateConeProperties cone s =
     s\<lparr>mData := LightData.more_update (cone (mInnerConeAngle s) (mOuterConeAngle s)) (mData s)\<rparr>"

text \<open>
  Modelled from the spec: \<^verbatim>\<open>SpotLight::setInnerConeAngle\<close>, body absent. In the words of
  the program: \<^verbatim>\<open>mInnerConeAngle = angle; if (mOuterConeAngle < mInnerConeAngle)
  mOuterConeAngle = mInnerConeAngle; updateConeProperties();\<close>
\<close>

definition setInnerConeAngle ::
  "(float \<Rightarrow> float \<Rightarrow> 'd \<Rightarrow> 'd) \<Rightarrow> float \<Rightarrow>
   ('t, 'd, 'm) SpotLight_scheme \<Rightarrow> ('t, 'd, 'm) SpotLight_scheme" where
  "setInnerConeAngle cone angle s =
     (let s1 = s\<lparr>mInnerConeAngle := angle\<rparr>;
          s2 = (if float_lt (mOuterConeAngle s1) (mInnerConeAngle s1)
                then s1\<lparr>mOuterConeAngle := mInnerConeAngle s1\<rparr> else s1)
      in updateConeProperties cone s2)"

text \<open>
  Modelled from the spec: \<^verbatim>\<open>SpotLight::setOuterConeAngle\<close>, body absent. In the words of
  the program: \<^verbatim>\<open>mOuterConeAngle = angle; if (mOuterConeAngle < mInnerConeAngle)
  mInnerConeAngle = mOuterConeAngle; updateConeProperties();\<close>
\<close>

definition setOuterConeAngle ::
  "(float \<Rightarrow> float \<Rightarrow> 'd \<Rightarrow> 'd) \<Rightarrow> float \<Rightarrow>
   ('t, 'd, 'm) SpotLight_scheme \<Rightarrow> ('t, 'd, 'm) SpotLight_scheme" where
  "setOuterConeAngle cone angle s =
     (let s1 = s\<lparr>mOuterConeAngle := angle\<rparr>;
          s2 = (if float_lt (mOuterConeAngle s1) (mInnerConeAngle s1)
                then s1\<lparr>mInnerConeAngle := mOuterConeAngle s1\<rparr> else s1)
      in updateConeProperties cone s2)"

subsection \<open>Construction\<close>

text \<open>
  Modelled from the spec: the bodies of the constructors \<^verbatim>\<open>DirectionalLight()\<close>,
  \<^verbatim>\<open>PointLight()\<close> and \<^verbatim>\<open>SpotLight()\<close> (Light.cpp) and the defaults of \<^verbatim>\<open>LightData\<close>
  (Data/HostDeviceData.h) are not among the sources. The spec gives the data of a light
  two invariants, "color = base color \<times> intensity" and the order of the cone angles, and
  derived attenuation factors. So the light a constructor leaves is the light of the
  member initialisers of Light.h, whose data block holds the light colour of the initial
  colour and intensity and, for a spot light, the attenuation factors of the initial
  angles. The type tag written by the constructor is the parameter \<open>tag\<close>; \<open>t0\<close> and
  \<open>d0\<close> are the default \<^verbatim>\<open>Transform\<close> and the remaining defaults of \<^verbatim>\<open>LightData\<close>.
\<close>

definition DirectionalLight_ctor ::
  "(float \<Rightarrow> float \<Rightarrow> float) \<Rightarrow> 32 word \<Rightarrow> 't \<Rightarrow> 'd LightData_scheme \<Rightarrow>
   ('t, 'd) DirectionalLight" where
  "DirectionalLight_ctor fmul tag t0 d0 =
     Light_init t0 (d0\<lparr>type := tag, lightColor := vec3_scale fmul (vec3_splat f_1) f_1\<rparr>)"

text \<open>Modelled from the spec: the light that \<^verbatim>\<open>PointLight()\<close> leaves, as described above.\<close>

definition PointLight_ctor ::
  "(float \<Rightarrow> float \<Rightarrow> float) \<Rightarrow> 32 word \<Rightarrow> 't \<Rightarrow> 'd LightData_scheme \<Rightarrow>
   ('t, 'd) PointLight" where
  "PointLight_ctor fmul tag t0 d0 =
     Light_init t0 (d0\<lparr>type := tag, lightColor := vec3_scale fmul (vec3_splat f_1) f_1\<rparr>)"

text \<open>
  Modelled from the spec: the light that \<^verbatim>\<open>SpotLight()\<close> leaves: that of its base
  \<^verbatim>\<open>PointLight\<close>, the two angles of the member initialisers, and the attenuation factors
  of these angles.
\<close>

definition SpotLight_ctor ::
  "(float \<Rightarrow> float \<Rightarrow> float) \<Rightarrow> (float \<Rightarrow> float \<Rightarrow> 'd \<Rightarrow> 'd) \<Rightarrow> 32 word \<Rightarrow> 't \<Rightarrow>
   'd LightData_scheme \<Rightarrow> ('t, 'd) SpotLight" where
  "SpotLight_ctor fmul cone tag t0 d0 =
     updateConeProperties cone
       (Light.extend (PointLight_ctor fmul tag t0 d0)
          \<lparr>mInnerConeAngle = f_0, mOuterConeAngle = f_45\<rparr>)"

subsection \<open>The member functions defined in Light.cpp\<close>

text \<open>
  Modelled from the spec: \<^verbatim>\<open>setIntoConstantBuffer\<close>, \<^verbatim>\<open>renderUI\<close> and \<^verbatim>\<open>move\<close> are declared
  in Light.h and defined in Light.cpp, which is not among the sources. The spec calls
  them narrow interfaces to the buffer, the GUI and the movable-object base ("set data
  into buffer, render UI, move") and gives the data the invariants named above. The
  model:
  \<^item> \<open>setIntoConstantBuffer\<close> ("Set the light parameters into a program", Light.h)
    copies the data block into the buffer, which is no part of the light: the light is
    as it was.
  \<^item> \<open>renderUI\<close> binds the parameters of the light to GUI elements. What the user
    edited reaches the light through its setters: the edits of one call are a list of
    setter calls, carried out in order by \<open>ap\<close>.
  \<^item> \<open>move\<close> places the light: it writes the \<^verbatim>\<open>Transform\<close> base and the members
    \<open>posW\<close>, \<open>dirW\<close> and \<open>upW\<close> of the data block. The values written are the
    parameters \<open>mvT\<close> and \<open>place\<close>.
\<close>

definition setIntoConstantBuffer :: "('t, 'd, 'm) Light_scheme \<Rightarrow> ('t, 'd, 'm) Light_scheme" where
  "setIntoConstantBuffer s = s"

text \<open>
  Modelled from the spec: \<^verbatim>\<open>renderUI\<close>, body absent; \<open>es\<close> are the edits made through
  the GUI elements during the call.
\<close>

fun renderUI :: "('c \<Rightarrow> 's \<Rightarrow> 's) \<Rightarrow> 'c list \<Rightarrow> 's \<Rightarrow> 's" where
  "renderUI ap [] s = s"
| "renderUI ap (e # es) s = renderUI ap es (ap e s)"

text \<open>
  Modelled from the spec: \<^verbatim>\<open>DirectionalLight::move\<close> and \<^verbatim>\<open>PointLight::move\<close>, bodies
  absent.
\<close>

definition Light_move ::
  "(vec3 \<Rightarrow> vec3 \<Rightarrow> vec3 \<Rightarrow> 't \<Rightarrow> 't) \<Rightarrow> (vec3 \<Rightarrow> vec3 \<Rightarrow> vec3 \<Rightarrow> vec3 \<times> vec3 \<times> vec3) \<Rightarrow>
   vec3 \<Rightarrow> vec3 \<Rightarrow> vec3 \<Rightarrow> ('t, 'd, 'm) Light_scheme \<Rightarrow> ('t, 'd, 'm) Light_scheme" where
  "Light_move mvT place position target up s =
     (case place position target up of (p, d, u) \<Rightarrow>
        s\<lparr>transform := mvT position target up (transform s),
          mData := (mData s)\<lparr>posW := p, dirW := d, upW := u\<rparr>\<rparr>)"

subsection \<open>Sequences of calls\<close>

text \<open>The setters whose bodies Light.h gives, as a datatype of calls.\<close>

datatype light_call =
    SetIntensity float
  | SetColor vec3
  | SetDirection vec3
  | SetName string
  | SetAttenuationRadius float
  | SetPosition vec3
  | SetUpVector vec3
  | SetSourceRadius float
  | SetSourceLength float

fun apply_light_call ::
  "(float \<Rightarrow> float \<Rightarrow> float) \<Rightarrow> light_call \<Rightarrow> ('t, 'd, 'm) Light_scheme \<Rightarrow> ('t, 'd, 'm) Light_scheme" where
  "apply_light_call fmul (SetIntensity i) s = setIntensity fmul i s"
| "apply_light_call fmul (SetColor c) s = setColor fmul c s"
| "apply_light_call fmul (SetDirection d) s = setDirection d s"
| "apply_light_call fmul (SetName n) s = setName n s"
| "apply_light_call fmul (SetAttenuationRadius r) s = setAttenuationRadius r s"
| "apply_light_call fmul (SetPosition p) s = setPosition p s"
| "apply_light_call fmul (SetUpVector u) s = setUpVector u s"
| "apply_light_call fmul (SetSourceRadius r) s = setSourceRadius r s"
| "apply_light_call fmul (SetSourceLength l) s = setSourceLength l s"

text \<open>The two setters of the spot light.\<close>

datatype cone_call = SetInnerConeAngle float | SetOuterConeAngle float


fun apply_cone_call ::
  "(float \<Rightarrow> float \<Rightarrow> 'd \<Rightarrow> 'd) \<Rightarrow> cone_call \<Rightarrow>
   ('t, 'd, 'm) SpotLight_scheme \<Rightarrow> ('t, 'd, 'm) SpotLight_scheme" where
  "apply_cone_call cone (SetInnerConeAngle a) s = setInnerConeAngle cone a s"
| "apply_cone_call cone (SetOuterConeAngle a) s = setOuterConeAngle cone a s"


text \<open>A setter call on a spot light: one of \<^verbatim>\<open>Light\<close> and \<^verbatim>\<open>PointLight\<close>, or one of its own.\<close>

datatype spot_call = LightCall light_call | ConeCall cone_call

fun apply_spot_call ::
  "(float \<Rightarrow> float \<Rightarrow> float) \<Rightarrow> (float \<Rightarrow> float \<Rightarrow> 'd \<Rightarrow> 'd) \<Rightarrow> spot_call \<Rightarrow>
   ('t, 'd, 'm) SpotLight_scheme \<Rightarrow> ('t, 'd, 'm) SpotLight_scheme" where
  "apply_spot_call fmul cone (LightCall c) s = apply_light_call fmul c s"
| "apply_spot_call fmul cone (ConeCall c) s = apply_cone_call cone c s"

text \<open>
  The state-changing operations of a light: a setter call \<open>Call c\<close>, carried out by
  \<open>ap\<close>, the two GPU hooks (the empty overrides), and the three member functions of
  Light.cpp. A sequence of operations is carried out from left to right.
\<close>

datatype 'c light_op =
    Call 'c
  | PrepareGPUData
  | UnloadGPUData
  | SetIntoConstantBuffer
  | RenderUI "'c list"
  | Move vec3 vec3 vec3

fun apply_light_op ::
  "('c \<Rightarrow> ('t, 'd, 'm) Light_scheme \<Rightarrow> ('t, 'd, 'm) Light_scheme) \<Rightarrow>
   (vec3 \<Rightarrow> vec3 \<Rightarrow> vec3 \<Rightarrow> 't \<Rightarrow> 't) \<Rightarrow> (vec3 \<Rightarrow> vec3 \<Rightarrow> vec3 \<Rightarrow> vec3 \<times> vec3 \<times> vec3) \<Rightarrow>
   'c light_op \<Rightarrow> ('t, 'd, 'm) Light_scheme \<Rightarrow> ('t, 'd, 'm) Light_scheme" where
  "apply_light_op ap mvT place (Call c) s = ap c s"
| "apply_light_op ap mvT place PrepareGPUData s = PointLight_prepareGPUData s"
| "apply_light_op ap mvT place UnloadGPUData s = PointLight_unloadGPUData s"
| "apply_light_op ap mvT place SetIntoConstantBuffer s = setIntoConstantBuffer s"
| "apply_light_op ap mvT place (RenderUI edits) s = renderUI ap edits s"
| "apply_light_op ap mvT place (Move position target up) s = Light_move mvT place position target up s"

fun run_light_ops ::
  "('c \<Rightarrow> ('t, 'd, 'm) Light_scheme \<Rightarrow> ('t, 'd, 'm) Light_scheme) \<Rightarrow>
   (vec3 \<Rightarrow> vec3 \<Rightarrow> vec3 \<Rightarrow> 't \<Rightarrow> 't) \<Rightarrow> (vec3 \<Rightarrow> vec3 \<Rightarrow> vec3 \<Rightarrow> vec3 \<times> vec3 \<times> vec3) \<Rightarrow>
   'c light_op list \<Rightarrow> ('t, 'd, 'm) Light_scheme \<Rightarrow> ('t, 'd, 'm) Light_scheme" where
  "run_light_ops ap mvT place [] s = s"
| "run_light_ops ap mvT place (x # xs) s = run_light_ops ap mvT place xs (apply_light_op ap mvT place x s)"

text \<open>The calls that end with \<^verbatim>\<open>updateLightColor()\<close>, and the operations that make one.\<close>

fun derives_lightColor :: "light_call \<Rightarrow> bool" where
  "derives_lightColor (SetIntensity i) = True"
| "derives_lightColor (SetColor c) = True"
| "derives_lightColor c = False"

fun spot_derives_lightColor :: "spot_call \<Rightarrow> bool" where
  "spot_derives_lightColor (LightCall c) = derives_lightColor c"
| "spot_derives_lightColor (ConeCall c) = False"

fun op_derives :: "('c \<Rightarrow> bool) \<Rightarrow> 'c light_op \<Rightarrow> bool" where
  "op_derives dv (Call c) = dv c"
| "op_derives dv (RenderUI edits) = list_ex dv edits"
| "op_derives dv x = False"

text \<open>The data block holds the modulation colour times the intensity.\<close>

definition lightColor_derived :: "(float \<Rightarrow> float \<Rightarrow> float) \<Rightarrow> ('t, 'd, 'm) Light_scheme \<Rightarrow> bool" where
  "lightColor_derived fmul s \<longleftrightarrow> lightColor (mData s) = vec3_scale fmul (mColor s) (mIntensity s)"



text \<open>A spot light to run the examples on.\<close>

definition example_data :: LightData where
  "example_data =
     \<lparr>posW = vec3_splat f_0, type = 2, dirW = Vec3 f_0 f_0 f_1, lightColor = vec3_splat f_1,
      attenuationRadius = f_45, upW = Vec3 f_0 f_1 f_0, sourceRadius = f_0, sourceLength = f_0\<rparr>"

definition example_spot :: "(unit, unit) SpotLight" where
  "example_spot = SpotLight_init () example_data"

section \<open>Properties\<close>

subsection \<open>The literals and the order of floats\<close>

lemma float_value_f_0: "float_value f_0 = Some 0"
  by (simp add: float_value_def f_0_def float_sign_def float_exponent_def float_fraction_def)

lemma float_value_f_1: "float_value f_1 = Some 1"
  by (simp add: float_value_def f_1_def float_sign_def float_exponent_def float_fraction_def)

lemma float_value_f_45: "float_value f_45 = Some 45"
  by (simp add: float_value_def f_45_def float_sign_def float_exponent_def float_fraction_def)







subsection \<open>Unfolding sets\<close>

lemmas light_setter_defs =
  updateLightColor_def setIntensity_def setColor_def setDirection_def setName_def
  setAttenuationRadius_def setPosition_def setUpVector_def setSourceRadius_def setSourceLength_def

lemmas light_getter_defs =
  getIntensity_def getColor_def getDirection_def getType_def getData_def getName_def
  getAttenuationRadius_def getPosition_def getUpVector_def getSourceRadius_def getSourceLength_def

lemmas cone_defs =
  updateConeProperties_def setInnerConeAngle_def setOuterConeAngle_def
  getInnerConeAngle_def getOuterConeAngle_def

subsection \<open>The derived light colour\<close>

text \<open>
  A setter call keeps the equation between the light colour, the colour and the
  intensity exactly as it found it, unless it is one of the two that end with
  \<open>updateLightColor\<close>: these establish it.
\<close>

lemma lightColor_derived_light_call:
  "lightColor_derived fmul (apply_light_call fmul c s) \<longleftrightarrow>
   lightColor_derived fmul s \<or> derives_lightColor c"
  by (cases c) (simp_all add: lightColor_derived_def light_setter_defs)

lemma lightColor_derived_cone_call:
  "lightColor_derived fmul (apply_cone_call cone c s) \<longleftrightarrow> lightColor_derived fmul s"
  by (cases c)
     (simp_all add: lightColor_derived_def setInnerConeAngle_def setOuterConeAngle_def
        updateConeProperties_def Let_def)

lemma lightColor_derived_spot_call:
  "lightColor_derived fmul (apply_spot_call fmul cone c s) \<longleftrightarrow>
   lightColor_derived fmul s \<or> spot_derives_lightColor c"
  by (cases c) (simp_all add: lightColor_derived_light_call lightColor_derived_cone_call)

lemma lightColor_derived_move:
  "lightColor_derived fmul (Light_move mvT place position target up s) \<longleftrightarrow> lightColor_derived fmul s"
  by (simp add: lightColor_derived_def Light_move_def split: prod.split)

lemma renderUI_derived:
  assumes "\<And>c s. P (ap c s) \<longleftrightarrow> P s \<or> dv c"
  shows "P (renderUI ap es s) \<longleftrightarrow> P s \<or> list_ex dv es"
  by (induction es arbitrary: s) (auto simp: assms)

lemma apply_light_op_derived:
  assumes "\<And>c s. lightColor_derived fmul (ap c s) \<longleftrightarrow> lightColor_derived fmul s \<or> dv c"
  shows "lightColor_derived fmul (apply_light_op ap mvT place x s) \<longleftrightarrow>
         lightColor_derived fmul s \<or> op_derives dv x"
proof (cases x)
  case (Call c)
  then show ?thesis by (simp add: assms)
next
  case (RenderUI es)
  then show ?thesis
    using renderUI_derived [of "lightColor_derived fmul" ap dv es s] assms by simp
next
  case (Move p t u)
  then show ?thesis by (simp add: lightColor_derived_move)
qed (simp_all add: PointLight_prepareGPUData_def PointLight_unloadGPUData_def
      setIntoConstantBuffer_def)

lemma run_light_ops_derived:
  assumes "\<And>c s. lightColor_derived fmul (ap c s) \<longleftrightarrow> lightColor_derived fmul s \<or> dv c"
  shows "lightColor_derived fmul (run_light_ops ap mvT place xs s) \<longleftrightarrow>
         lightColor_derived fmul s \<or> list_ex (op_derives dv) xs"
proof (induction xs arbitrary: s)
  case Nil
  show ?case by simp
next
  case (Cons x xs)
  show ?case
    using Cons.IH [of "apply_light_op ap mvT place x s"]
      apply_light_op_derived [of fmul ap dv mvT place x s] assms
    by auto
qed

lemma lightColor_derived_ctor:
  "lightColor_derived fmul (DirectionalLight_ctor fmul tag t0 d0) \<and>
   lightColor_derived fmul (PointLight_ctor fmul tag t0 d0) \<and>
   lightColor_derived fmul (SpotLight_ctor fmul cone tag t0 d0)"
  by (simp add: lightColor_derived_def DirectionalLight_ctor_def PointLight_ctor_def
      SpotLight_ctor_def updateConeProperties_def Light.extend_def Light_init_def)

text \<open>On a spot light \<open>Light_move\<close> is \<open>SpotLight_move\<close> of the same function.\<close>

lemma SpotLight_move_Light_move:
  "SpotLight_move (Light_move mvT place) position target up s =
   Light_move mvT place position target up s"
  by (cases s)
     (simp add: SpotLight_move_def Light_move_def Light.extend_def Light.truncate_def
        split: prod.split)

text \<open>
  Claim C1. For every light and every sequence of operations, the data member
  \<open>lightColor\<close> equals the modulation colour multiplied by the intensity. \<open>setIntensity\<close>
  and \<open>setColor\<close> each establish the equation from any state; a newly constructed
  directional, point or spot light satisfies it; after any sequence of operations (setter
  calls, the GPU hooks, \<open>setIntoConstantBuffer\<close>, \<open>renderUI\<close>, \<open>move\<close>, and on a spot
  light the cone setters) it holds exactly if it held before or one of the two setters
  was called, so no operation breaks it; hence it holds after every sequence of
  operations on a constructed light. Equality is that of the stored values, and the
  product is the one the program computes, for any float multiplication.
\<close>

theorem lightColor_invariant:
  "lightColor_derived fmul (setIntensity fmul i s) \<and>
   lightColor_derived fmul (setColor fmul c s) \<and>
   lightColor_derived fmul (DirectionalLight_ctor fmul tag t0 d0) \<and>
   lightColor_derived fmul (PointLight_ctor fmul tag t0 d0) \<and>
   lightColor_derived fmul (SpotLight_ctor fmul cone tag t0 d0) \<and>
   (lightColor_derived fmul (run_light_ops (apply_light_call fmul) mvT place xs s) \<longleftrightarrow>
      lightColor_derived fmul s \<or> list_ex (op_derives derives_lightColor) xs) \<and>
   (lightColor_derived fmul (run_light_ops (apply_spot_call fmul cone) mvT place ys u) \<longleftrightarrow>
      lightColor_derived fmul u \<or> list_ex (op_derives spot_derives_lightColor) ys) \<and>
   lightColor_derived fmul
     (run_light_ops (apply_light_call fmul) mvT place xs (DirectionalLight_ctor fmul tag t0 d0)) \<and>
   lightColor_derived fmul
     (run_light_ops (apply_light_call fmul) mvT place xs (PointLight_ctor fmul tag t0 d0)) \<and>
   lightColor_derived fmul
     (run_light_ops (apply_spot_call fmul cone) mvT place ys (SpotLight_ctor fmul cone tag t0 d0))"
proof -
  have setters: "lightColor_derived fmul (setIntensity fmul i s) \<and>
      lightColor_derived fmul (setColor fmul c s)"
    by (simp add: lightColor_derived_def light_setter_defs)
  have light: "lightColor_derived fmul (run_light_ops (apply_light_call fmul) mvT place xs s) \<longleftrightarrow>
      lightColor_derived fmul s \<or> list_ex (op_derives derives_lightColor) xs"
    by (rule run_light_ops_derived) (rule lightColor_derived_light_call)
  have spot: "lightColor_derived fmul (run_light_ops (apply_spot_call fmul cone) mvT place ys u) \<longleftrightarrow>
      lightColor_derived fmul u \<or> list_ex (op_derives spot_derives_lightColor) ys"
    by (rule run_light_ops_derived) (rule lightColor_derived_spot_call)
  have ctors: "lightColor_derived fmul (DirectionalLight_ctor fmul tag t0 d0) \<and>
      lightColor_derived fmul (PointLight_ctor fmul tag t0 d0) \<and>
      lightColor_derived fmul (SpotLight_ctor fmul cone tag t0 d0)"
    by (rule lightColor_derived_ctor)
  have dir: "lightColor_derived fmul
     (run_light_ops (apply_light_call fmul) mvT place xs (DirectionalLight_ctor fmul tag t0 d0))"
    using ctors
      run_light_ops_derived [of fmul "apply_light_call fmul" derives_lightColor mvT place xs
        "DirectionalLight_ctor fmul tag t0 d0", OF lightColor_derived_light_call]
    by simp
  have pnt: "lightColor_derived fmul
     (run_light_ops (apply_light_call fmul) mvT place xs (PointLight_ctor fmul tag t0 d0))"
    using ctors
      run_light_ops_derived [of fmul "apply_light_call fmul" derives_lightColor mvT place xs
        "PointLight_ctor fmul tag t0 d0", OF lightColor_derived_light_call]
    by simp
  have spt: "lightColor_derived fmul
     (run_light_ops (apply_spot_call fmul cone) mvT place ys (SpotLight_ctor fmul cone tag t0 d0))"
    using ctors
      run_light_ops_derived [of fmul "apply_spot_call fmul cone" spot_derives_lightColor mvT place ys
        "SpotLight_ctor fmul cone tag t0 d0", OF lightColor_derived_spot_call]
    by simp
  from setters ctors light spot dir pnt spt show ?thesis
    by (intro conjI) (simp_all only: simp_thms)
qed

subsection \<open>The order of the cone angles\<close>










subsection \<open>Derived parameters\<close>

text \<open>
  Claim C3. Setting the intensity or the colour updates the colour of the data block:
  after \<open>setIntensity i\<close> it is \<open>getColor\<close> times \<open>i\<close>, after \<open>setColor c\<close> it is \<open>c\<close>
  times \<open>getIntensity\<close>. Setting the inner or the outer cone angle of a spot light
  recomputes the attenuation factors of the data block from the two angles as they are
  after the call, and leaves the members that Light.h names as they were.
\<close>

theorem derived_parameters_updated:
  "lightColor (getData (setIntensity fmul i s)) = vec3_scale fmul (getColor s) i \<and>
   getColor (setIntensity fmul i s) = getColor s \<and>
   lightColor (getData (setColor fmul c s)) = vec3_scale fmul c (getIntensity s) \<and>
   LightData.more (getData (setInnerConeAngle cone a t)) =
     cone (getInnerConeAngle (setInnerConeAngle cone a t))
          (getOuterConeAngle (setInnerConeAngle cone a t)) (LightData.more (getData t)) \<and>
   LightData.truncate (getData (setInnerConeAngle cone a t)) = LightData.truncate (getData t) \<and>
   LightData.more (getData (setOuterConeAngle cone a t)) =
     cone (getInnerConeAngle (setOuterConeAngle cone a t))
          (getOuterConeAngle (setOuterConeAngle cone a t)) (LightData.more (getData t)) \<and>
   LightData.truncate (getData (setOuterConeAngle cone a t)) = LightData.truncate (getData t)"
  by (simp add: light_setter_defs light_getter_defs cone_defs Let_def LightData.truncate_def)

subsection \<open>Setters\<close>

text \<open>
  Claim C4. No setter fails: the setters are total functions of the value and the state,
  with no error result and no condition on the value (a negative intensity, a zero
  direction, any angle, any bit pattern of a float), and the state they return holds the
  value given, and what is derived from it: the light colour after \<open>setIntensity\<close>
  and \<open>setColor\<close>; after a cone setter the attenuation factors and, where the order
  of the angles asks for it, the other angle.
\<close>

theorem setters_assign_unconditionally:
  "getIntensity (setIntensity fmul i s) = i \<and>
   lightColor (getData (setIntensity fmul i s)) = vec3_scale fmul (getColor s) i \<and>
   getColor (setColor fmul c s) = c \<and>
   lightColor (getData (setColor fmul c s)) = vec3_scale fmul c (getIntensity s) \<and>
   getDirection (setDirection d s) = d \<and>
   getPosition (setPosition p s) = p \<and>
   getAttenuationRadius (setAttenuationRadius r s) = r \<and>
   getSourceRadius (setSourceRadius r s) = r \<and>
   getSourceLength (setSourceLength l s) = l \<and>
   getName (setName n s) = n \<and>
   getInnerConeAngle (setInnerConeAngle cone a t) = a \<and>
   getOuterConeAngle (setInnerConeAngle cone a t) =
     (if float_lt (getOuterConeAngle t) a then a else getOuterConeAngle t) \<and>
   LightData.more (getData (setInnerConeAngle cone a t)) =
     cone a (getOuterConeAngle (setInnerConeAngle cone a t)) (LightData.more (getData t)) \<and>
   getOuterConeAngle (setOuterConeAngle cone a t) = a \<and>
   getInnerConeAngle (setOuterConeAngle cone a t) =
     (if float_lt a (getInnerConeAngle t) then a else getInnerConeAngle t) \<and>
   LightData.more (getData (setOuterConeAngle cone a t)) =
     cone (getInnerConeAngle (setOuterConeAngle cone a t)) a (LightData.more (getData t))"
  by (simp add: light_setter_defs light_getter_defs cone_defs Let_def)

text \<open>
  Claim C5. The hooks \<open>prepareGPUData\<close> and \<open>unloadGPUData\<close> of the directional and of
  the point light return the light as it was: the name, the colour, the intensity and the
  whole data block are unchanged.
\<close>

theorem gpu_hooks_change_nothing:
  "DirectionalLight_prepareGPUData s = s \<and> DirectionalLight_unloadGPUData s = s \<and>
   PointLight_prepareGPUData p = p \<and> PointLight_unloadGPUData p = p \<and>
   getName (DirectionalLight_prepareGPUData s) = getName s \<and>
   getColor (DirectionalLight_prepareGPUData s) = getColor s \<and>
   getIntensity (DirectionalLight_prepareGPUData s) = getIntensity s \<and>
   getData (DirectionalLight_prepareGPUData s) = getData s"
  by (simp add: DirectionalLight_prepareGPUData_def DirectionalLight_unloadGPUData_def
      PointLight_prepareGPUData_def PointLight_unloadGPUData_def)

text \<open>
  Claim C6. \<open>getShaderStructSize\<close> returns the size of the data block: it takes no light,
  so its value is the same for every light of every class in every state, and it is the
  size of \<open>LightData\<close> whenever that size fits the 32 bits of the result. \<open>getData\<close>
  returns the data block of the light.
\<close>

theorem shader_struct_size:
  "getShaderStructSize sz = ucast (kDataSize sz) \<and> kDataSize sz = sz \<and>
   (unat sz < 2 ^ 32 \<longrightarrow> unat (getShaderStructSize sz) = unat sz) \<and>
   getData s = mData s"
  by (simp add: getShaderStructSize_def kDataSize_def getData_def unsigned_ucast_eq
      take_bit_nat_eq_self_iff)

theorem shader_struct_size_witness:
  "unat (112 :: 64 word) < 2 ^ 32 \<and> unat (getShaderStructSize 112) = unat (112 :: 64 word)"
  using shader_struct_size [of 112 example_spot] by simp

subsection \<open>Inheritance\<close>

text \<open>
  Claim C7. The classes are \<open>Light\<close>, \<open>DirectionalLight\<close> and \<open>PointLight\<close> derived from it,
  and \<open>SpotLight\<close> derived from \<open>PointLight\<close>; there is no other light class. On a spot
  light every operation of the point light is that operation on the \<open>PointLight\<close> part of
  the object, the cone angles staying as they were; the getters read the \<open>PointLight\<close>
  part.
\<close>

theorem spot_light_inherits_point_light:
  "base_class Class_SpotLight = Some Class_PointLight \<and>
   base_class Class_PointLight = Some Class_Light \<and>
   base_class Class_DirectionalLight = Some Class_Light \<and>
   (UNIV :: light_class set) =
     {Class_Light, Class_DirectionalLight, Class_PointLight, Class_SpotLight} \<and>
   setPosition p (s :: ('t, 'd) SpotLight) =
     Light.extend (setPosition p (Light.truncate s)) (Light.more s) \<and>
   getPosition s = getPosition (Light.truncate s) \<and>
   setAttenuationRadius r s =
     Light.extend (setAttenuationRadius r (Light.truncate s)) (Light.more s) \<and>
   getAttenuationRadius s = getAttenuationRadius (Light.truncate s) \<and>
   setUpVector u s = Light.extend (setUpVector u (Light.truncate s)) (Light.more s) \<and>
   getUpVector s = getUpVector (Light.truncate s) \<and>
   setSourceRadius r s = Light.extend (setSourceRadius r (Light.truncate s)) (Light.more s) \<and>
   getSourceRadius s = getSourceRadius (Light.truncate s) \<and>
   setSourceLength l s = Light.extend (setSourceLength l (Light.truncate s)) (Light.more s) \<and>
   getSourceLength s = getSourceLength (Light.truncate s) \<and>
   Light.truncate (SpotLight_move mv position target up s) =
     mv position target up (Light.truncate s) \<and>
   Light.more (SpotLight_move mv position target up s) = Light.more s"
proof -
  have classes: "(UNIV :: light_class set) =
     {Class_Light, Class_DirectionalLight, Class_PointLight, Class_SpotLight}"
  proof -
    have "k \<in> {Class_Light, Class_DirectionalLight, Class_PointLight, Class_SpotLight}" for k
      by (cases k) simp_all
    then show ?thesis by blast
  qed
  have moving: "Light.truncate (SpotLight_move mv position target up s) =
       mv position target up (Light.truncate s) \<and>
     Light.more (SpotLight_move mv position target up s) = Light.more s"
    by (cases "mv position target up (Light.truncate s)")
       (simp add: SpotLight_move_def Light.extend_def Light.truncate_def)
  have setting: "setPosition p s = Light.extend (setPosition p (Light.truncate s)) (Light.more s) \<and>
     setAttenuationRadius r s =
       Light.extend (setAttenuationRadius r (Light.truncate s)) (Light.more s) \<and>
     setUpVector u s = Light.extend (setUpVector u (Light.truncate s)) (Light.more s) \<and>
     setSourceRadius r s = Light.extend (setSourceRadius r (Light.truncate s)) (Light.more s) \<and>
     setSourceLength l s = Light.extend (setSourceLength l (Light.truncate s)) (Light.more s)"
    by (cases s) (simp add: light_setter_defs Light.extend_def Light.truncate_def)
  have getting: "getPosition s = getPosition (Light.truncate s) \<and>
     getAttenuationRadius s = getAttenuationRadius (Light.truncate s) \<and>
     getUpVector s = getUpVector (Light.truncate s) \<and>
     getSourceRadius s = getSourceRadius (Light.truncate s) \<and>
     getSourceLength s = getSourceLength (Light.truncate s)"
    by (simp add: light_getter_defs Light.truncate_def)
  show ?thesis using classes moving setting getting by simp
qed

subsection \<open>Round trips and frames\<close>

text \<open>
  Claim C8. A getter returns what the setter was given, with no normalisation and no
  clamping: \<open>getDirection\<close> after \<open>setDirection d\<close> is \<open>d\<close> for every vector, for
  instance the vector (45, 45, 45), which is not of unit length; likewise the position
  and the attenuation radius of a point light, and the name.
\<close>

theorem setter_getter_round_trip:
  "getDirection (setDirection d s) = d \<and>
   getDirection (setDirection (vec3_splat f_45) s) = Vec3 f_45 f_45 f_45 \<and>
   getPosition (setPosition p s) = p \<and>
   getAttenuationRadius (setAttenuationRadius r s) = r \<and>
   getName (setName n s) = n"
  by (simp add: light_setter_defs light_getter_defs vec3_splat_def)

text \<open>
  Claim C9. A plain setter changes its own member only: putting the old value of that
  member back into the state after the call gives the state before the call, with every
  other member of the light and of the data block as it was. For \<open>setDirection\<close> the
  colour, the intensity, the name, the light colour and the position are listed one by
  one.
\<close>

theorem plain_setters_frame:
  "(setDirection d s)\<lparr>mData := (mData (setDirection d s))\<lparr>dirW := dirW (mData s)\<rparr>\<rparr> = s \<and>
   mColor (setDirection d s) = mColor s \<and> mIntensity (setDirection d s) = mIntensity s \<and>
   mName (setDirection d s) = mName s \<and>
   lightColor (mData (setDirection d s)) = lightColor (mData s) \<and>
   posW (mData (setDirection d s)) = posW (mData s) \<and>
   (setPosition p s)\<lparr>mData := (mData (setPosition p s))\<lparr>posW := posW (mData s)\<rparr>\<rparr> = s \<and>
   (setUpVector u s)\<lparr>mData := (mData (setUpVector u s))\<lparr>upW := upW (mData s)\<rparr>\<rparr> = s \<and>
   (setAttenuationRadius r s)\<lparr>mData := (mData (setAttenuationRadius r s))
       \<lparr>attenuationRadius := attenuationRadius (mData s)\<rparr>\<rparr> = s \<and>
   (setSourceRadius r s)\<lparr>mData := (mData (setSourceRadius r s))
       \<lparr>sourceRadius := sourceRadius (mData s)\<rparr>\<rparr> = s \<and>
   (setSourceLength l s)\<lparr>mData := (mData (setSourceLength l s))
       \<lparr>sourceLength := sourceLength (mData s)\<rparr>\<rparr> = s"
  by (simp add: light_setter_defs)

subsection \<open>Initial values\<close>

text \<open>
  Claim C10. Construction gives fixed initial parameters. The member initialisers of
  Light.h give the modulation colour (1, 1, 1), the intensity 1, and for a spot light
  the inner cone angle 0 and the outer cone angle 45, in degrees. Every newly
  constructed directional, point or spot light has this colour and intensity, and the
  light colour of its data block is the one derived from them; every newly constructed
  spot light has these two angles.
\<close>

theorem default_member_values:
  "getColor (Light_init t0 d0) = Vec3 f_1 f_1 f_1 \<and>
   getIntensity (Light_init t0 d0) = f_1 \<and>
   getInnerConeAngle (SpotLight_init t0 d0) = f_0 \<and>
   getOuterConeAngle (SpotLight_init t0 d0) = f_45 \<and>
   float_value f_1 = Some 1 \<and> float_value f_0 = Some 0 \<and> float_value f_45 = Some 45 \<and>
   getColor (DirectionalLight_ctor fmul tag t0 d0) = Vec3 f_1 f_1 f_1 \<and>
   getIntensity (DirectionalLight_ctor fmul tag t0 d0) = f_1 \<and>
   lightColor (getData (DirectionalLight_ctor fmul tag t0 d0)) =
     vec3_scale fmul (Vec3 f_1 f_1 f_1) f_1 \<and>
   getColor (PointLight_ctor fmul tag t0 d0) = Vec3 f_1 f_1 f_1 \<and>
   getIntensity (PointLight_ctor fmul tag t0 d0) = f_1 \<and>
   lightColor (getData (PointLight_ctor fmul tag t0 d0)) =
     vec3_scale fmul (Vec3 f_1 f_1 f_1) f_1 \<and>
   getColor (SpotLight_ctor fmul cone tag t0 d0) = Vec3 f_1 f_1 f_1 \<and>
   getIntensity (SpotLight_ctor fmul cone tag t0 d0) = f_1 \<and>
   lightColor (getData (SpotLight_ctor fmul cone tag t0 d0)) =
     vec3_scale fmul (Vec3 f_1 f_1 f_1) f_1 \<and>
   getInnerConeAngle (SpotLight_ctor fmul cone tag t0 d0) = f_0 \<and>
   getOuterConeAngle (SpotLight_ctor fmul cone tag t0 d0) = f_45"
  by (simp add: Light_init_def SpotLight_init_def DirectionalLight_ctor_def PointLight_ctor_def
      SpotLight_ctor_def Light.extend_def light_getter_defs cone_defs vec3_splat_def
      float_value_f_0 float_value_f_1 float_value_f_45)

end
